theory Spec2Isabelle
  imports Complex_Main "HOL-Library.Monad_Syntax"
begin

section \<open>Python values used by http_wrapper.py\<close>

text \<open>
  Python floats are modelled as exact real numbers: the arithmetic of the source is
  written with the same operations in the same order, without the binary rounding of
  each operation. Every value the source obtains from \<^verbatim>\<open>random\<close>, from the clock
  or from the network is an explicit argument of the model.
\<close>

datatype py_error = ZeroDivisionError | IndexError | KeyError | ValueError

text \<open>\<^verbatim>\<open>raise HTTPException(status_code=500, detail=str(e))\<close>\<close>

datatype http_error = HTTPException nat py_error

text \<open>Float division: Python raises on a zero divisor.\<close>

definition py_div :: "real \<Rightarrow> real \<Rightarrow> py_error + real" where
  "py_div a b = (if b = 0 then Inl ZeroDivisionError else Inr (a / b))"

text \<open>
  \<^verbatim>\<open>round(x, 2)\<close>: the nearest multiple of 0.01, a tie going to the even one.
\<close>

definition round_half_even :: "real \<Rightarrow> int" where
  "round_half_even x =
     (let f = \<lfloor>x\<rfloor>; d = x - of_int f
      in if d < 1/2 then f else if 1/2 < d then f + 1 else if even f then f else f + 1)"

definition round2 :: "real \<Rightarrow> real" where
  "round2 x = of_int (round_half_even (x * 100)) / 100"

text \<open>
  \<^verbatim>\<open>str.upper()\<close> and \<^verbatim>\<open>str.lower()\<close> on ASCII text (a \<open>char\<close> is a byte; symbols
  and queries outside ASCII are not modelled).
\<close>

definition upper_char :: "char \<Rightarrow> char" where
  "upper_char c =
     (case map_of (zip ''abcdefghijklmnopqrstuvwxyz'' ''ABCDEFGHIJKLMNOPQRSTUVWXYZ'') c of
        Some u \<Rightarrow> u | None \<Rightarrow> c)"

definition lower_char :: "char \<Rightarrow> char" where
  "lower_char c =
     (case map_of (zip ''ABCDEFGHIJKLMNOPQRSTUVWXYZ'' ''abcdefghijklmnopqrstuvwxyz'') c of
        Some l \<Rightarrow> l | None \<Rightarrow> c)"

definition upper :: "string \<Rightarrow> string" where
  "upper s = map upper_char s"

definition lower :: "string \<Rightarrow> string" where
  "lower s = map lower_char s"

text \<open>
  \<^verbatim>\<open>q in s\<close> on strings: \<open>q\<close> occurs in \<open>s\<close> as a contiguous substring, that is,
  some suffix of \<open>s\<close> starts with \<open>q\<close>.
\<close>

primrec starts_with :: "string \<Rightarrow> string \<Rightarrow> bool" where
  "starts_with s [] = True"
| "starts_with s (c # q) = (case s of [] \<Rightarrow> False | d # r \<Rightarrow> d = c \<and> starts_with r q)"

primrec str_contains :: "string \<Rightarrow> string \<Rightarrow> bool" where
  "str_contains [] q = (q = [])"
| "str_contains (c # s) q = (starts_with (c # s) q \<or> str_contains s q)"

section \<open>The catalog\<close>

record stock_info =
  c_name :: string
  c_price :: real
  c_change :: real
  c_volume :: int
  c_market_cap :: int

text \<open>The dict literal, in insertion order.\<close>

definition MOCK_STOCK_DATA :: "(string \<times> stock_info) list" where
  "MOCK_STOCK_DATA =
   [(''AAPL'', \<lparr>c_name = ''Apple Inc.'', c_price = 175.50, c_change = 2.30,
       c_volume = 45000000, c_market_cap = 2800000000000\<rparr>),
    (''GOOGL'', \<lparr>c_name = ''Alphabet Inc. Class A'', c_price = 139.25, c_change = -1.85,
       c_volume = 28000000, c_market_cap = 1750000000000\<rparr>),
    (''MSFT'', \<lparr>c_name = ''Microsoft Corporation'', c_price = 378.90, c_change = 4.20,
       c_volume = 22000000, c_market_cap = 2900000000000\<rparr>),
    (''AMZN'', \<lparr>c_name = ''Amazon.com Inc.'', c_price = 142.80, c_change = -0.95,
       c_volume = 35000000, c_market_cap = 1500000000000\<rparr>),
    (''TSLA'', \<lparr>c_name = ''Tesla Inc.'', c_price = 248.50, c_change = 8.75,
       c_volume = 85000000, c_market_cap = 790000000000\<rparr>),
    (''META'', \<lparr>c_name = ''Meta Platforms Inc.'', c_price = 298.35, c_change = -2.15,
       c_volume = 18000000, c_market_cap = 750000000000\<rparr>),
    (''NVDA'', \<lparr>c_name = ''NVIDIA Corporation'', c_price = 875.30, c_change = 15.60,
       c_volume = 40000000, c_market_cap = 2100000000000\<rparr>),
    (''NFLX'', \<lparr>c_name = ''Netflix Inc.'', c_price = 425.70, c_change = -3.45,
       c_volume = 12000000, c_market_cap = 185000000000\<rparr>),
    (''AMD'', \<lparr>c_name = ''Advanced Micro Devices Inc.'', c_price = 142.90, c_change = 3.80,
       c_volume = 38000000, c_market_cap = 230000000000\<rparr>),
    (''CRM'', \<lparr>c_name = ''Salesforce Inc.'', c_price = 215.40, c_change = 1.25,
       c_volume = 8500000, c_market_cap = 210000000000\<rparr>)]"

section \<open>Quotes\<close>

record quote =
  q_symbol :: string
  q_name :: string
  q_price :: real
  q_change :: real
  q_change_percent :: real
  q_previous_close :: real
  q_open :: real
  q_high :: real
  q_low :: real
  q_volume :: int
  q_market_cap :: int
  q_currency :: string
  q_exchange :: string
  q_last_updated :: string
  q_data_source :: string
  q_status :: string
  q_note :: "string option"

text \<open>
  The values \<^verbatim>\<open>get_mock_stock_quote\<close> draws from \<^verbatim>\<open>random\<close>, named after the
  variables that receive them. The first three are drawn for a catalog symbol, the last
  four for an unknown one.
\<close>

record quote_draws =
  price_variation :: real
  change_variation :: real
  volume_jitter :: int
  base_price_draw :: real
  change_draw :: real
  volume_draw :: int
  market_cap_draw :: int

text \<open>What \<^verbatim>\<open>random.uniform\<close> and \<^verbatim>\<open>random.randint\<close> can return there.\<close>

definition quote_draws_ok :: "quote_draws \<Rightarrow> bool" where
  "quote_draws_ok r \<longleftrightarrow>
     - 0.02 \<le> price_variation r \<and> price_variation r \<le> 0.02 \<and>
     - 0.5 \<le> change_variation r \<and> change_variation r \<le> 0.5 \<and>
     - 1000000 \<le> volume_jitter r \<and> volume_jitter r \<le> 1000000 \<and>
     50 \<le> base_price_draw r \<and> base_price_draw r \<le> 300 \<and>
     - 10 \<le> change_draw r \<and> change_draw r \<le> 10 \<and>
     1000000 \<le> volume_draw r \<and> volume_draw r \<le> 50000000 \<and>
     10000000000 \<le> market_cap_draw r \<and> market_cap_draw r \<le> 500000000000"

text \<open>
  \<^verbatim>\<open>get_mock_stock_quote(symbol)\<close>; \<open>now\<close> is \<^verbatim>\<open>datetime.now().isoformat()\<close>.
  The only operation that can raise is the division of \<^verbatim>\<open>change_percent\<close>.
\<close>

definition get_mock_stock_quote :: "quote_draws \<Rightarrow> string \<Rightarrow> string \<Rightarrow> py_error + quote" where
  "get_mock_stock_quote rnd now symbol0 =
     (let symbol = upper symbol0 in
      case map_of MOCK_STOCK_DATA symbol of
        Some base_data \<Rightarrow>
          (let base_price = c_price base_data;
               varied_price = base_price * (1 + price_variation rnd);
               varied_change = c_change base_data + change_variation rnd
           in case py_div varied_change (varied_price - varied_change) of
                Inl e \<Rightarrow> Inl e
              | Inr ratio \<Rightarrow> Inr
                 \<lparr>q_symbol = symbol,
                  q_name = c_name base_data,
                  q_price = round2 varied_price,
                  q_change = round2 varied_change,
                  q_change_percent = round2 (ratio * 100),
                  q_previous_close = round2 (varied_price - varied_change),
                  q_open = round2 (varied_price - (varied_change * 0.3)),
                  q_high = round2 (varied_price + \<bar>varied_change * 0.7\<bar>),
                  q_low = round2 (varied_price - \<bar>varied_change * 0.8\<bar>),
                  q_volume = c_volume base_data + volume_jitter rnd,
                  q_market_cap = c_market_cap base_data,
                  q_currency = ''USD'',
                  q_exchange = ''NASDAQ/NYSE'',
                  q_last_updated = now,
                  q_data_source = ''mock_data'',
                  q_status = ''success'',
                  q_note = None\<rparr>)
      | None \<Rightarrow>
          (let base_price = base_price_draw rnd;
               change = change_draw rnd
           in case py_div change (base_price - change) of
                Inl e \<Rightarrow> Inl e
              | Inr ratio \<Rightarrow> Inr
                 \<lparr>q_symbol = symbol,
                  q_name = symbol @ '' Corporation'',
                  q_price = round2 base_price,
                  q_change = round2 change,
                  q_change_percent = round2 (ratio * 100),
                  q_previous_close = round2 (base_price - change),
                  q_open = round2 (base_price - (change * 0.3)),
                  q_high = round2 (base_price + \<bar>change * 0.7\<bar>),
                  q_low = round2 (base_price - \<bar>change * 0.8\<bar>),
                  q_volume = volume_draw rnd,
                  q_market_cap = market_cap_draw rnd,
                  q_currency = ''USD'',
                  q_exchange = ''NASDAQ/NYSE'',
                  q_last_updated = now,
                  q_data_source = ''mock_data'',
                  q_status = ''success'',
                  q_note = None\<rparr>))"

section \<open>Live quote providers\<close>

text \<open>
  What an HTTP request gave: \<open>Raised\<close> when \<^verbatim>\<open>client.get\<close> or \<^verbatim>\<open>response.json()\<close>
  raised (no connection, timeout, a body that is not JSON or not of the shape the code
  reads), otherwise the status code and the decoded body.
\<close>

datatype 'a reply = Raised | Reply nat 'a

text \<open>
  The \<^verbatim>\<open>meta\<close> object of a Yahoo chart result; \<open>None\<close> is an absent key, which
  \<^verbatim>\<open>meta.get(key, default)\<close> replaces by its default.
\<close>

record yahoo_meta =
  regularMarketPrice :: "real option"
  previousClose :: "real option"
  longName :: "string option"
  regularMarketOpen :: "real option"
  regularMarketDayHigh :: "real option"
  regularMarketDayLow :: "real option"
  regularMarketVolume :: "int option"
  marketCap :: "int option"
  currency :: "string option"
  exchangeName :: "string option"

text \<open>
  The \<^verbatim>\<open>indicators.quote[0]\<close> object: each column is absent (\<open>None\<close>) or a list
  whose entries may be \<^verbatim>\<open>null\<close>.
\<close>

record quote_columns =
  col_open :: "real option list option"
  col_high :: "real option list option"
  col_low :: "real option list option"
  col_close :: "real option list option"
  col_volume :: "int option list option"

text \<open>
  One element of \<^verbatim>\<open>data["chart"]["result"]\<close>. \<open>r_indicators_quote\<close> is
  \<^verbatim>\<open>result.get("indicators", {}).get("quote", [{}])\<close> before the default is applied.
  The body of a chart reply is the list \<^verbatim>\<open>data.get("chart", {}).get("result")\<close>,
  empty when it is absent.
\<close>

record chart_result =
  r_meta :: "yahoo_meta option"
  r_timestamp :: "int list option"
  r_indicators_quote :: "quote_columns list option"

definition get_or :: "'a option \<Rightarrow> 'a \<Rightarrow> 'a" where
  "get_or v d = (case v of Some x \<Rightarrow> x | None \<Rightarrow> d)"

text \<open>The first \<^verbatim>\<open>try\<close> block of \<^verbatim>\<open>try_live_stock_quote\<close>; \<open>None\<close> when it does not return.\<close>

definition yahoo_finance_quote :: "string \<Rightarrow> string \<Rightarrow> chart_result list reply \<Rightarrow> quote option" where
  "yahoo_finance_quote now symbol response =
     (case response of
        Raised \<Rightarrow> None
      | Reply status_code data \<Rightarrow>
          if status_code = 200 then
            (case data of
               [] \<Rightarrow> None
             | result # _ \<Rightarrow>
                 (case r_meta result of
                    None \<Rightarrow> None
                  | Some meta \<Rightarrow>
                      (let current_price = get_or (regularMarketPrice meta) 0;
                           previous_close = get_or (previousClose meta) 0
                       in if current_price > 0 then
                            (let change = current_price - previous_close;
                                 change_percent =
                                   (if previous_close \<noteq> 0 then (change / previous_close) * 100 else 0)
                             in Some
                               \<lparr>q_symbol = upper symbol,
                                q_name = get_or (longName meta) (upper symbol),
                                q_price = round2 current_price,
                                q_change = round2 change,
                                q_change_percent = round2 change_percent,
                                q_previous_close = round2 previous_close,
                                q_open = round2 (get_or (regularMarketOpen meta) 0),
                                q_high = round2 (get_or (regularMarketDayHigh meta) 0),
                                q_low = round2 (get_or (regularMarketDayLow meta) 0),
                                q_volume = get_or (regularMarketVolume meta) 0,
                                q_market_cap = get_or (marketCap meta) 0,
                                q_currency = get_or (currency meta) ''USD'',
                                q_exchange = get_or (exchangeName meta) [],
                                q_last_updated = now,
                                q_data_source = ''yahoo_finance'',
                                q_status = ''success'',
                                q_note = None\<rparr>)
                          else None)))
          else None)"

text \<open>
  \<^verbatim>\<open>float(s)\<close> and \<^verbatim>\<open>int(s)\<close> on the text fields of an Alpha Vantage quote: an
  optional sign and decimal digits, for \<^verbatim>\<open>float\<close> with an optional point. Other
  spellings that Python reads (surrounding blanks, exponents, \<^verbatim>\<open>inf\<close>, \<^verbatim>\<open>nan\<close>) are
  outside the real-number model and count as unreadable here.
\<close>

definition digit_of :: "char \<Rightarrow> nat option" where
  "digit_of c = map_of (zip ''0123456789'' [0, 1, 2, 3, 4, 5, 6, 7, 8, 9]) c"

primrec digits_val :: "nat \<Rightarrow> string \<Rightarrow> nat option" where
  "digits_val acc [] = Some acc"
| "digits_val acc (c # cs) =
     (case digit_of c of None \<Rightarrow> None | Some d \<Rightarrow> digits_val (10 * acc + d) cs)"

definition split_sign :: "string \<Rightarrow> bool \<times> string" where
  "split_sign s =
     (case s of
        [] \<Rightarrow> (False, s)
      | c # r \<Rightarrow> if c = CHR ''-'' then (True, r) else if c = CHR ''+'' then (False, r) else (False, s))"

definition py_float :: "string \<Rightarrow> py_error + real" where
  "py_float s =
     (let (neg, body) = split_sign s;
          ip = takeWhile (\<lambda>c. c \<noteq> CHR ''.'') body;
          fp = drop 1 (dropWhile (\<lambda>c. c \<noteq> CHR ''.'') body)
      in if ip = [] \<and> fp = [] then Inl ValueError
         else case (digits_val 0 ip, digits_val 0 fp) of
                (Some a, Some b) \<Rightarrow>
                  (let v = real a + real b / 10 ^ length fp in Inr (if neg then - v else v))
              | _ \<Rightarrow> Inl ValueError)"

definition py_int :: "string \<Rightarrow> py_error + int" where
  "py_int s =
     (let (neg, body) = split_sign s
      in if body = [] then Inl ValueError
         else case digits_val 0 body of
                Some a \<Rightarrow> Inr (if neg then - int a else int a)
              | None \<Rightarrow> Inl ValueError)"

text \<open>\<^verbatim>\<open>float(quote.get(key, default))\<close> where the default is already a number.\<close>

definition float_field :: "(string \<times> string) list \<Rightarrow> string \<Rightarrow> real \<Rightarrow> py_error + real" where
  "float_field quote key dflt =
     (case map_of quote key of None \<Rightarrow> Inr dflt | Some s \<Rightarrow> py_float s)"

text \<open>An exception raised inside a \<^verbatim>\<open>try\<close> block whose handler only prints it.\<close>

definition caught :: "py_error + 'a \<Rightarrow> 'a option" where
  "caught r = (case r of Inl e \<Rightarrow> None | Inr v \<Rightarrow> Some v)"

text \<open>
  The second \<^verbatim>\<open>try\<close> block; \<open>quote\<close> is the \<^verbatim>\<open>"Global Quote"\<close> object, a dict from
  text to text (empty when absent), \<open>today\<close> is \<^verbatim>\<open>datetime.now().date().isoformat()\<close>.
  An exception at any step leaves the block without a result.
\<close>

definition alpha_vantage_quote :: "string \<Rightarrow> string \<Rightarrow> (string \<times> string) list reply \<Rightarrow> quote option" where
  "alpha_vantage_quote today symbol response =
     (case response of
        Raised \<Rightarrow> None
      | Reply status_code quote \<Rightarrow>
          if status_code = 200 then
            (if quote \<noteq> [] \<and> get_or (map_of quote ''05. price'') [] \<noteq> [] then
               do {
                 price \<leftarrow> caught (float_field quote ''05. price'' 0);
                 change \<leftarrow> caught (float_field quote ''09. change'' 0);
                 change_percent \<leftarrow> caught (py_float (filter (\<lambda>c. c \<noteq> CHR ''%'')
                       (get_or (map_of quote ''10. change percent'') ''0%'')));
                 open_price \<leftarrow> caught (float_field quote ''02. open'' price);
                 high \<leftarrow> caught (float_field quote ''03. high'' price);
                 low \<leftarrow> caught (float_field quote ''04. low'' price);
                 volume \<leftarrow> caught (case map_of quote ''06. volume'' of
                                     None \<Rightarrow> Inr 0 | Some s \<Rightarrow> py_int s);
                 Some
                  \<lparr>q_symbol = upper symbol,
                   q_name = upper symbol @ '' Inc.'',
                   q_price = round2 price,
                   q_change = round2 change,
                   q_change_percent = round2 change_percent,
                   q_previous_close = round2 (price - change),
                   q_open = round2 open_price,
                   q_high = round2 high,
                   q_low = round2 low,
                   q_volume = volume,
                   q_market_cap = 0,
                   q_currency = ''USD'',
                   q_exchange = ''NASDAQ/NYSE'',
                   q_last_updated = get_or (map_of quote ''07. latest trading day'') today,
                   q_data_source = ''alpha_vantage'',
                   q_status = ''success'',
                   q_note = None\<rparr>
               }
             else None)
          else None)"

text \<open>\<^verbatim>\<open>try_live_stock_quote(symbol)\<close>: Yahoo Finance first, then Alpha Vantage.\<close>

definition try_live_stock_quote ::
    "string \<Rightarrow> string \<Rightarrow> chart_result list reply \<Rightarrow> (string \<times> string) list reply \<Rightarrow> string
     \<Rightarrow> quote option" where
  "try_live_stock_quote now today yahoo alpha symbol =
     (case yahoo_finance_quote now symbol yahoo of
        Some q \<Rightarrow> Some q
      | None \<Rightarrow> alpha_vantage_quote today symbol alpha)"

text \<open>The endpoint \<^verbatim>\<open>/stock/quote\<close>; the result is the value under \<^verbatim>\<open>"data"\<close>.\<close>

definition stock_quote ::
    "string \<Rightarrow> string \<Rightarrow> chart_result list reply \<Rightarrow> (string \<times> string) list reply \<Rightarrow> quote_draws
     \<Rightarrow> string \<Rightarrow> http_error + quote" where
  "stock_quote now today yahoo alpha rnd symbol =
     (case try_live_stock_quote now today yahoo alpha symbol of
        Some live_data \<Rightarrow> Inr live_data
      | None \<Rightarrow>
          (case get_mock_stock_quote rnd now symbol of
             Inl e \<Rightarrow> Inl (HTTPException 500 e)
           | Inr mock_data \<Rightarrow>
               Inr (mock_data\<lparr>q_note :=
                      Some ''Live data unavailable - showing mock data for demonstration''\<rparr>)))"

section \<open>History\<close>

text \<open>
  A calendar day is its day number; \<^verbatim>\<open>strftime("%Y-%m-%d")\<close>, which names each day by
  a different text, is not modelled.
\<close>

record history_point =
  pt_date :: int
  pt_open :: real
  pt_high :: real
  pt_low :: real
  pt_close :: real
  pt_volume :: int

record history_response =
  h_symbol :: string
  h_period :: string
  h_history :: "history_point list"
  h_total_return_percent :: real
  h_data_points :: nat
  h_start_price :: real
  h_end_price :: real
  h_data_source :: string
  h_note :: "string option"
  h_status :: string

subsection \<open>The live series\<close>

text \<open>\<^verbatim>\<open>quotes[key][i]\<close>: the key may be absent and the index out of range.\<close>

definition col_get :: "'a option list option \<Rightarrow> nat \<Rightarrow> py_error + 'a option" where
  "col_get col i =
     (case col of
        None \<Rightarrow> Inl KeyError
      | Some xs \<Rightarrow> if i < length xs then Inr (xs ! i) else Inl IndexError)"

text \<open>
  \<^verbatim>\<open>datetime.fromtimestamp(timestamp)\<close> as a day number, for a server whose local time
  is UTC.
\<close>

definition day_of_timestamp :: "int \<Rightarrow> int" where
  "day_of_timestamp t = t div 86400"

text \<open>
  The dict appended for index \<open>i\<close>; \<^verbatim>\<open>x or 0\<close> turns \<^verbatim>\<open>None\<close> into 0. \<open>None\<close>
  when building it raised.
\<close>

definition live_point :: "quote_columns \<Rightarrow> nat \<Rightarrow> int \<Rightarrow> history_point option" where
  "live_point quotes i timestamp =
     do {
       open_v \<leftarrow> caught (col_get (col_open quotes) i);
       high_v \<leftarrow> caught (col_get (col_high quotes) i);
       low_v \<leftarrow> caught (col_get (col_low quotes) i);
       close_v \<leftarrow> caught (col_get (col_close quotes) i);
       volume \<leftarrow>
         (if get_or (col_volume quotes) [] \<noteq> [] then
            map_option (\<lambda>v. get_or v 0) (caught (col_get (col_volume quotes) i))
          else Some 0);
       Some \<lparr>pt_date = day_of_timestamp timestamp,
             pt_open = round2 (get_or open_v 0),
             pt_high = round2 (get_or high_v 0),
             pt_low = round2 (get_or low_v 0),
             pt_close = round2 (get_or close_v 0),
             pt_volume = volume\<rparr>
     }"

text \<open>\<^verbatim>\<open>for i, timestamp in enumerate(timestamps)\<close>, from index \<open>i\<close> on.\<close>

fun live_history_loop ::
    "quote_columns \<Rightarrow> nat \<Rightarrow> int list \<Rightarrow> history_point list \<Rightarrow> history_point list option" where
  "live_history_loop quotes i [] history = Some history"
| "live_history_loop quotes i (timestamp # rest) history =
     (let closes = get_or (col_close quotes) [] in
      if i < length closes \<and> closes ! i \<noteq> None then
        (case live_point quotes i timestamp of
           None \<Rightarrow> None
         | Some p \<Rightarrow> live_history_loop quotes (Suc i) rest (history @ [p]))
      else live_history_loop quotes (Suc i) rest history)"

definition no_columns :: quote_columns where
  "no_columns = \<lparr>col_open = None, col_high = None, col_low = None, col_close = None,
                 col_volume = None\<rparr>"

text \<open>
  The inner \<^verbatim>\<open>try\<close> block of \<^verbatim>\<open>stock_history\<close>: \<open>None\<close> when it raised or ended
  without returning.
\<close>

definition live_history ::
    "chart_result list reply \<Rightarrow> string \<Rightarrow> string \<Rightarrow> history_response option" where
  "live_history response symbol period =
     (case response of
        Raised \<Rightarrow> None
      | Reply status_code data \<Rightarrow>
          if status_code = 200 then
            (case data of
               [] \<Rightarrow> None
             | result # _ \<Rightarrow>
                 (let timestamps = get_or (r_timestamp result) [] in
                  case get_or (r_indicators_quote result) [no_columns] of
                    [] \<Rightarrow> None
                  | quotes # _ \<Rightarrow>
                      do {
                        history \<leftarrow> live_history_loop quotes 0 timestamps [];
                        if history \<noteq> [] then
                          (let start_price = pt_close (hd history);
                               end_price = pt_close (last history)
                           in do {
                                ratio \<leftarrow> caught (py_div (end_price - start_price) start_price);
                                Some \<lparr>h_symbol = upper symbol,
                                      h_period = period,
                                      h_history = history,
                                      h_total_return_percent = round2 (ratio * 100),
                                      h_data_points = length history,
                                      h_start_price = start_price,
                                      h_end_price = end_price,
                                      h_data_source = ''yahoo_finance'',
                                      h_note = None,
                                      h_status = ''success''\<rparr>
                              })
                        else None
                      }))
          else None)"

subsection \<open>The generated series\<close>

definition days_map :: "(string \<times> nat) list" where
  "days_map = [(''1d'', 1), (''5d'', 5), (''1mo'', 30), (''3mo'', 90), (''6mo'', 180), (''1y'', 365)]"

text \<open>
  The values one iteration of the loop draws from \<^verbatim>\<open>random\<close>, in the order of the
  source; \<open>d_start\<close> is drawn in the first iteration only.
\<close>

record day_draws =
  d_daily_change :: real
  d_start :: real
  d_high :: real
  d_low :: real
  d_open :: real
  d_volume :: int

definition day_draws_ok :: "day_draws \<Rightarrow> bool" where
  "day_draws_ok d \<longleftrightarrow>
     - 0.03 \<le> d_daily_change d \<and> d_daily_change d \<le> 0.03 \<and>
     - 0.1 \<le> d_start d \<and> d_start d \<le> 0.1 \<and>
     0 \<le> d_high d \<and> d_high d \<le> 0.02 \<and>
     0 \<le> d_low d \<and> d_low d \<le> 0.02 \<and>
     - 0.01 \<le> d_open d \<and> d_open d \<le> 0.01 \<and>
     1000000 \<le> d_volume d \<and> d_volume d \<le> 20000000"

text \<open>\<^verbatim>\<open>history[-1]\<close>\<close>

definition py_last :: "'a list \<Rightarrow> py_error + 'a" where
  "py_last xs = (if xs = [] then Inl IndexError else Inr (last xs))"

text \<open>\<^verbatim>\<open>history[0]\<close>\<close>

definition py_first :: "'a list \<Rightarrow> py_error + 'a" where
  "py_first xs = (case xs of [] \<Rightarrow> Inl IndexError | x # _ \<Rightarrow> Inr x)"

text \<open>
  The body of \<^verbatim>\<open>for i in range(days)\<close>: the point appended in iteration \<open>i\<close>.
  \<open>clock i\<close> is the calendar day on which that iteration reads \<^verbatim>\<open>datetime.now()\<close>,
  \<open>rnd i\<close> what it draws.
\<close>

definition mock_point ::
    "nat \<Rightarrow> (nat \<Rightarrow> int) \<Rightarrow> (nat \<Rightarrow> day_draws) \<Rightarrow> real \<Rightarrow> history_point list \<Rightarrow> nat
     \<Rightarrow> py_error + history_point" where
  "mock_point days clock rnd start_price history i =
     (let date = clock i - int (days - i - 1);
          daily_change = d_daily_change (rnd i)
      in case (if i = 0 then Inr (start_price * (1 + d_start (rnd i)))
               else map_sum id (\<lambda>prev. pt_close prev * (1 + daily_change)) (py_last history)) of
           Inl e \<Rightarrow> Inl e
         | Inr price \<Rightarrow>
             (let high = price * (1 + d_high (rnd i));
                  low = price * (1 - d_low (rnd i));
                  open_price = price * (1 + d_open (rnd i))
              in Inr \<lparr>pt_date = date,
                      pt_open = round2 open_price,
                      pt_high = round2 high,
                      pt_low = round2 low,
                      pt_close = round2 price,
                      pt_volume = d_volume (rnd i)\<rparr>))"

text \<open>The list \<^verbatim>\<open>history\<close> after the first \<open>n\<close> iterations of the loop.\<close>

primrec mock_history_loop ::
    "nat \<Rightarrow> (nat \<Rightarrow> int) \<Rightarrow> (nat \<Rightarrow> day_draws) \<Rightarrow> real \<Rightarrow> nat \<Rightarrow> py_error + history_point list" where
  "mock_history_loop days clock rnd start_price 0 = Inr []"
| "mock_history_loop days clock rnd start_price (Suc i) =
     (case mock_history_loop days clock rnd start_price i of
        Inl e \<Rightarrow> Inl e
      | Inr history \<Rightarrow>
          (case mock_point days clock rnd start_price history i of
             Inl e \<Rightarrow> Inl e
           | Inr p \<Rightarrow> Inr (history @ [p])))"

text \<open>The aggregates computed after the loop, and the response.\<close>

definition mock_history_response ::
    "string \<Rightarrow> string \<Rightarrow> history_point list \<Rightarrow> py_error + history_response" where
  "mock_history_response symbol period history =
     (case py_first history of
        Inl e \<Rightarrow> Inl e
      | Inr first_point \<Rightarrow>
          (case py_last history of
             Inl e \<Rightarrow> Inl e
           | Inr last_point \<Rightarrow>
               (let start_price = pt_close first_point;
                    end_price = pt_close last_point
                in case py_div (end_price - start_price) start_price of
                     Inl e \<Rightarrow> Inl e
                   | Inr ratio \<Rightarrow> Inr
                       \<lparr>h_symbol = upper symbol,
                        h_period = period,
                        h_history = history,
                        h_total_return_percent = round2 (ratio * 100),
                        h_data_points = length history,
                        h_start_price = start_price,
                        h_end_price = end_price,
                        h_data_source = ''mock_data'',
                        h_note = Some ''Live data unavailable - showing mock data for demonstration'',
                        h_status = ''success''\<rparr>)))"

text \<open>The part of \<^verbatim>\<open>stock_history\<close> after the inner \<^verbatim>\<open>try\<close> block.\<close>

definition mock_history ::
    "(nat \<Rightarrow> int) \<Rightarrow> string \<Rightarrow> quote_draws \<Rightarrow> (nat \<Rightarrow> day_draws) \<Rightarrow> string \<Rightarrow> string
     \<Rightarrow> py_error + history_response" where
  "mock_history clock now qrnd rnd symbol period =
     (let days = get_or (map_of days_map period) 30 in
      case get_mock_stock_quote qrnd now symbol of
        Inl e \<Rightarrow> Inl e
      | Inr current_quote \<Rightarrow>
          (let start_price = q_price current_quote in
           case mock_history_loop days clock rnd start_price days of
             Inl e \<Rightarrow> Inl e
           | Inr history \<Rightarrow> mock_history_response symbol period history))"

text \<open>The endpoint \<^verbatim>\<open>/stock/history\<close>; the result is the value under \<^verbatim>\<open>"data"\<close>.\<close>

definition stock_history ::
    "chart_result list reply \<Rightarrow> (nat \<Rightarrow> int) \<Rightarrow> string \<Rightarrow> quote_draws \<Rightarrow> (nat \<Rightarrow> day_draws)
     \<Rightarrow> string \<Rightarrow> string \<Rightarrow> http_error + history_response" where
  "stock_history yahoo clock now qrnd rnd symbol period =
     (case live_history yahoo symbol period of
        Some live \<Rightarrow> Inr live
      | None \<Rightarrow>
          (case mock_history clock now qrnd rnd symbol period of
             Inl e \<Rightarrow> Inl (HTTPException 500 e)
           | Inr r \<Rightarrow> Inr r))"

section \<open>Search\<close>

text \<open>An element of \<^verbatim>\<open>data.get("quotes", [])\<close>; \<open>None\<close> is an absent key.\<close>

record search_quote =
  sq_quoteType :: "string option"
  sq_symbol :: "string option"
  sq_longname :: "string option"
  sq_shortname :: "string option"
  sq_exchange :: "string option"
  sq_sector :: "string option"

record search_result =
  sr_symbol :: string
  sr_name :: string
  sr_exchange :: string
  sr_type :: string
  sr_sector :: string

record search_response =
  s_query :: string
  s_results :: "search_result list"
  s_count :: nat
  s_data_source :: string
  s_note :: "string option"
  s_status :: string

text \<open>\<^verbatim>\<open>for quote in data.get("quotes", [])\<close>, with the results collected so far.\<close>

fun live_search_loop :: "search_quote list \<Rightarrow> search_result list \<Rightarrow> search_result list" where
  "live_search_loop [] results = results"
| "live_search_loop (quote # rest) results =
     (if sq_quoteType quote \<in> {Some ''EQUITY'', Some ''ETF''} \<and> length results < 10 then
        live_search_loop rest
          (results @
           [\<lparr>sr_symbol = get_or (sq_symbol quote) [],
             sr_name = get_or (sq_longname quote) (get_or (sq_shortname quote) []),
             sr_exchange = get_or (sq_exchange quote) [],
             sr_type = get_or (sq_quoteType quote) [],
             sr_sector = get_or (sq_sector quote) []\<rparr>])
      else live_search_loop rest results)"

text \<open>The inner \<^verbatim>\<open>try\<close> block of \<^verbatim>\<open>stock_search\<close>.\<close>

definition live_search :: "search_quote list reply \<Rightarrow> string \<Rightarrow> search_response option" where
  "live_search response query =
     (case response of
        Raised \<Rightarrow> None
      | Reply status_code quotes \<Rightarrow>
          if status_code = 200 then
            (let results = live_search_loop quotes [] in
             if results \<noteq> [] then
               Some \<lparr>s_query = query,
                     s_results = results,
                     s_count = length results,
                     s_data_source = ''yahoo_finance'',
                     s_note = None,
                     s_status = ''success''\<rparr>
             else None)
          else None)"

text \<open>\<^verbatim>\<open>for symbol, data in MOCK_STOCK_DATA.items()\<close>\<close>

fun mock_search_loop ::
    "string \<Rightarrow> (string \<times> stock_info) list \<Rightarrow> search_result list \<Rightarrow> search_result list" where
  "mock_search_loop query_lower [] mock_results = mock_results"
| "mock_search_loop query_lower ((symbol, data) # rest) mock_results =
     (if str_contains (lower (c_name data)) query_lower \<or> str_contains (lower symbol) query_lower
      then mock_search_loop query_lower rest
             (mock_results @
              [\<lparr>sr_symbol = symbol,
                sr_name = c_name data,
                sr_exchange = ''NASDAQ'',
                sr_type = ''EQUITY'',
                sr_sector = ''Technology''\<rparr>])
      else mock_search_loop query_lower rest mock_results)"

text \<open>The endpoint \<^verbatim>\<open>/stock/search\<close>; the result is the value under \<^verbatim>\<open>"data"\<close>.\<close>

definition stock_search :: "search_quote list reply \<Rightarrow> string \<Rightarrow> http_error + search_response" where
  "stock_search yahoo query =
     (case live_search yahoo query of
        Some live \<Rightarrow> Inr live
      | None \<Rightarrow>
          (let query_lower = lower query;
               mock_results = mock_search_loop query_lower MOCK_STOCK_DATA []
           in Inr \<lparr>s_query = query,
                   s_results = take 10 mock_results,
                   s_count = length (take 10 mock_results),
                   s_data_source = ''mock_data'',
                   s_note = Some ''Live data unavailable - showing mock results for demonstration'',
                   s_status = ''success''\<rparr>))"

section \<open>Rounding is monotone\<close>

lemma round_half_even_lower: "of_int (round_half_even x) \<le> x + 1/2"
  unfolding round_half_even_def Let_def by (auto; linarith)

lemma round_half_even_upper: "x - 1/2 \<le> of_int (round_half_even x)"
  unfolding round_half_even_def Let_def by (auto; linarith)

lemma round_half_even_mono:
  assumes "x \<le> y"
  shows "round_half_even x \<le> round_half_even y"
proof (cases "\<lfloor>x\<rfloor> = \<lfloor>y\<rfloor>")
  case True
  with assms show ?thesis
    unfolding round_half_even_def Let_def by auto
next
  case False
  with assms have lt: "\<lfloor>x\<rfloor> < \<lfloor>y\<rfloor>"
    using floor_mono [of x y] by linarith
  have "round_half_even x \<le> \<lfloor>x\<rfloor> + 1"
    unfolding round_half_even_def Let_def by auto
  moreover have "\<lfloor>y\<rfloor> \<le> round_half_even y"
    unfolding round_half_even_def Let_def by auto
  ultimately show ?thesis using lt by linarith
qed

lemma round2_mono: "x \<le> y \<Longrightarrow> round2 x \<le> round2 y"
  unfolding round2_def
  by (simp add: divide_right_mono round_half_even_mono)

lemma round_half_even_of_int [simp]: "round_half_even (of_int k) = k"
  unfolding round_half_even_def Let_def by simp

lemma round_half_even_zero [simp]: "round_half_even 0 = 0"
  unfolding round_half_even_def Let_def by simp

lemma round2_zero [simp]: "round2 0 = 0"
  unfolding round2_def by simp

lemma round2_nonneg: "0 \<le> x \<Longrightarrow> 0 \<le> round2 x"
  using round2_mono [of 0 x] by simp

section \<open>The generated quote\<close>

lemma catalog_range:
  assumes "map_of MOCK_STOCK_DATA s = Some b"
  shows "139.25 \<le> c_price b \<and> c_price b \<le> 875.30 \<and> - 3.45 \<le> c_change b \<and> c_change b \<le> 15.60"
proof -
  from assms have "(s, b) \<in> set MOCK_STOCK_DATA" by (rule map_of_SomeD)
  then show ?thesis unfolding MOCK_STOCK_DATA_def by auto
qed

lemma varied_price_lower:
  assumes "139.25 \<le> (p::real)" and "- 0.02 \<le> v"
  shows "136.465 \<le> p * (1 + v)"
proof -
  have "139.25 * 0.98 \<le> p * (1 + v)"
    using assms by (intro mult_mono) auto
  then show ?thesis by simp
qed

lemma catalog_denominator:
  assumes "map_of MOCK_STOCK_DATA s = Some b" and "quote_draws_ok r"
  shows "120 < c_price b * (1 + price_variation r) - (c_change b + change_variation r)"
proof -
  have "136.465 \<le> c_price b * (1 + price_variation r)"
    using catalog_range [OF assms(1)] assms(2)
    by (intro varied_price_lower) (auto simp: quote_draws_ok_def)
  moreover have "c_change b + change_variation r \<le> 16.1"
    using catalog_range [OF assms(1)] assms(2) by (auto simp: quote_draws_ok_def)
  ultimately show ?thesis by simp
qed

lemma derived_high_bounds:
  fixes p c :: real
  shows "p \<le> p + \<bar>c * 0.7\<bar>" and "p - c * 0.3 \<le> p + \<bar>c * 0.7\<bar>"
    and "p - \<bar>c * 0.8\<bar> \<le> p + \<bar>c * 0.7\<bar>"
  by (auto simp: abs_if)

lemma derived_low_bounds:
  fixes p c :: real
  shows "p - \<bar>c * 0.8\<bar> \<le> p" and "p - \<bar>c * 0.8\<bar> \<le> p - c * 0.3"
  by (auto simp: abs_if)

text \<open>
  Claim C3. For a symbol of the catalog (in any letter case) and draws in the ranges of
  the generator, \<^verbatim>\<open>get_mock_stock_quote\<close> returns a quote whose fields are derived from
  the perturbed price and change by the stated formulas and then rounded to two
  decimals, and in that quote high is at least open, price and low, and low is at most
  open, price and high.
\<close>

theorem mock_quote_catalog_ohlc:
  assumes "map_of MOCK_STOCK_DATA (upper symbol) = Some base" and "quote_draws_ok rnd"
  shows "\<exists>q. get_mock_stock_quote rnd now symbol = Inr q \<and>
           (let price = c_price base * (1 + price_variation rnd);
                change = c_change base + change_variation rnd
            in q_price q = round2 price \<and> q_change q = round2 change \<and>
               q_open q = round2 (price - 0.3 * change) \<and>
               q_high q = round2 (price + 0.7 * \<bar>change\<bar>) \<and>
               q_low q = round2 (price - 0.8 * \<bar>change\<bar>) \<and>
               q_previous_close q = round2 (price - change)) \<and>
           max (q_open q) (max (q_price q) (q_low q)) \<le> q_high q \<and>
           q_low q \<le> min (q_open q) (min (q_price q) (q_high q))"
proof -
  define price where "price = c_price base * (1 + price_variation rnd)"
  define change where "change = c_change base + change_variation rnd"
  have nz: "price - change \<noteq> 0"
    using catalog_denominator [OF assms] unfolding price_def change_def by linarith
  let ?q = "\<lparr>q_symbol = upper symbol, q_name = c_name base, q_price = round2 price,
      q_change = round2 change, q_change_percent = round2 (change / (price - change) * 100),
      q_previous_close = round2 (price - change), q_open = round2 (price - (change * 0.3)),
      q_high = round2 (price + \<bar>change * 0.7\<bar>), q_low = round2 (price - \<bar>change * 0.8\<bar>),
      q_volume = c_volume base + volume_jitter rnd, q_market_cap = c_market_cap base,
      q_currency = ''USD'', q_exchange = ''NASDAQ/NYSE'', q_last_updated = now,
      q_data_source = ''mock_data'', q_status = ''success'', q_note = None\<rparr>"
  have run: "get_mock_stock_quote rnd now symbol = Inr ?q"
    using assms(1) nz
    by (simp add: get_mock_stock_quote_def py_div_def Let_def price_def change_def)
  have fields: "q_open ?q = round2 (price - 0.3 * change)"
    "q_high ?q = round2 (price + 0.7 * \<bar>change\<bar>)"
    "q_low ?q = round2 (price - 0.8 * \<bar>change\<bar>)"
    by (simp_all add: abs_mult mult.commute)
  have hi: "q_price ?q \<le> q_high ?q" "q_open ?q \<le> q_high ?q" "q_low ?q \<le> q_high ?q"
    using derived_high_bounds [of price change] by (simp_all add: round2_mono)
  have lo: "q_low ?q \<le> q_price ?q" "q_low ?q \<le> q_open ?q"
    using derived_low_bounds [of price change] by (simp_all add: round2_mono)
  show ?thesis
    using run fields hi lo
    unfolding Let_def price_def [symmetric] change_def [symmetric]
    by (intro exI [of _ ?q]) simp
qed

theorem mock_quote_catalog_ohlc_witness:
  "\<exists>q. get_mock_stock_quote
          \<lparr>price_variation = 0.01, change_variation = - 0.25, volume_jitter = 1234,
           base_price_draw = 100, change_draw = 1, volume_draw = 2000000,
           market_cap_draw = 20000000000\<rparr> ''2024-01-01T00:00:00'' ''msft'' = Inr q \<and>
        q_price q = 382.69 \<and> q_open q = 381.50 \<and> q_high q = 385.45 \<and> q_low q = 379.53 \<and>
        max (q_open q) (max (q_price q) (q_low q)) \<le> q_high q \<and>
        q_low q \<le> min (q_open q) (min (q_price q) (q_high q))"
proof -
  have cat: "map_of MOCK_STOCK_DATA (upper ''msft'') =
      Some \<lparr>c_name = ''Microsoft Corporation'', c_price = 378.90, c_change = 4.20,
       c_volume = 22000000, c_market_cap = 2900000000000\<rparr>"
    by (simp add: MOCK_STOCK_DATA_def upper_def upper_char_def)
  have ok: "quote_draws_ok \<lparr>price_variation = 0.01, change_variation = - 0.25, volume_jitter = 1234,
           base_price_draw = 100, change_draw = 1, volume_draw = 2000000,
           market_cap_draw = 20000000000\<rparr>"
    by (simp add: quote_draws_ok_def)
  from mock_quote_catalog_ohlc [OF cat ok, of "''2024-01-01T00:00:00''"]
  obtain q where "get_mock_stock_quote
          \<lparr>price_variation = 0.01, change_variation = - 0.25, volume_jitter = 1234,
           base_price_draw = 100, change_draw = 1, volume_draw = 2000000,
           market_cap_draw = 20000000000\<rparr> ''2024-01-01T00:00:00'' ''msft'' = Inr q"
    and "q_price q = 382.69 \<and> q_open q = 381.50 \<and> q_high q = 385.45 \<and> q_low q = 379.53"
    and "max (q_open q) (max (q_price q) (q_low q)) \<le> q_high q"
    and "q_low q \<le> min (q_open q) (min (q_price q) (q_high q))"
    by (auto simp: Let_def round2_def round_half_even_def)
  then show ?thesis by blast
qed

lemma unknown_denominator:
  assumes "quote_draws_ok r"
  shows "40 \<le> base_price_draw r - change_draw r"
  using assms by (simp add: quote_draws_ok_def)

lemma mock_quote_unknown:
  assumes "map_of MOCK_STOCK_DATA (upper symbol) = None" and "quote_draws_ok rnd"
  shows "\<exists>q. get_mock_stock_quote rnd now symbol = Inr q \<and>
           q_price q = round2 (base_price_draw rnd) \<and>
           q_data_source q = ''mock_data'' \<and> q_status q = ''success''"
  using assms unknown_denominator [OF assms(2)]
  by (simp add: get_mock_stock_quote_def py_div_def Let_def)

lemma mock_quote_known:
  assumes "map_of MOCK_STOCK_DATA (upper symbol) = Some base" and "quote_draws_ok rnd"
  shows "\<exists>q. get_mock_stock_quote rnd now symbol = Inr q \<and>
           q_price q = round2 (c_price base * (1 + price_variation rnd)) \<and>
           q_data_source q = ''mock_data'' \<and> q_status q = ''success''"
  using assms catalog_denominator [OF assms]
  by (simp add: get_mock_stock_quote_def py_div_def Let_def)

lemma round2_50 [simp]: "round2 50 = 50"
  by (simp add: round2_def round_half_even_def)

lemma mock_quote_anchor:
  assumes "quote_draws_ok rnd"
  shows "\<exists>q. get_mock_stock_quote rnd now symbol = Inr q \<and> 50 \<le> q_price q \<and>
           (upper symbol \<in> dom (map_of MOCK_STOCK_DATA) \<longrightarrow> 136.46 \<le> q_price q) \<and>
           q_data_source q = ''mock_data'' \<and> q_status q = ''success''"
proof (cases "map_of MOCK_STOCK_DATA (upper symbol)")
  case None
  from mock_quote_unknown [OF None assms, of now] obtain q
    where q: "get_mock_stock_quote rnd now symbol = Inr q"
      "q_price q = round2 (base_price_draw rnd)"
      "q_data_source q = ''mock_data''" "q_status q = ''success''" by blast
  have "round2 50 \<le> round2 (base_price_draw rnd)"
    using assms by (intro round2_mono) (simp add: quote_draws_ok_def)
  with q None show ?thesis by (auto simp: dom_def)
next
  case (Some base)
  from mock_quote_known [OF Some assms, of now] obtain q
    where q: "get_mock_stock_quote rnd now symbol = Inr q"
      "q_price q = round2 (c_price base * (1 + price_variation rnd))"
      "q_data_source q = ''mock_data''" "q_status q = ''success''" by blast
  have "136.465 \<le> c_price base * (1 + price_variation rnd)"
    using catalog_range [OF Some] assms
    by (intro varied_price_lower) (auto simp: quote_draws_ok_def)
  then have "round2 136.465 \<le> round2 (c_price base * (1 + price_variation rnd))"
    by (rule round2_mono)
  moreover have "round2 136.465 = 136.46"
    by (simp add: round2_def round_half_even_def)
  ultimately have "136.46 \<le> q_price q" using q(2) by simp
  with q show ?thesis by auto
qed

text \<open>
  Claim C2. For every symbol and all draws in the ranges of the generator,
  \<^verbatim>\<open>get_mock_stock_quote\<close> returns a quote and does not raise: the divisor
  \<^verbatim>\<open>price - change\<close> of the change percentage is at least 40, the percentage is
  \<^verbatim>\<open>change / (price - change) * 100\<close> rounded to two decimals, and a price equal to
  the change would come with a percentage of 0. No draw in range makes the price equal
  to the change, so that case never arises and the derivation is total over all draws.
\<close>

theorem mock_quote_total:
  assumes "quote_draws_ok rnd"
  shows "\<exists>q. get_mock_stock_quote rnd now symbol = Inr q \<and>
           (let (price, change) =
                  (case map_of MOCK_STOCK_DATA (upper symbol) of
                     Some base_data \<Rightarrow>
                       (c_price base_data * (1 + price_variation rnd),
                        c_change base_data + change_variation rnd)
                   | None \<Rightarrow> (base_price_draw rnd, change_draw rnd))
            in 40 \<le> price - change \<and>
               (price = change \<longrightarrow> q_change_percent q = 0) \<and>
               q_change_percent q = round2 (change / (price - change) * 100))"
proof (cases "map_of MOCK_STOCK_DATA (upper symbol)")
  case None
  from unknown_denominator [OF assms]
  have d: "40 \<le> base_price_draw rnd - change_draw rnd" .
  then have "base_price_draw rnd - change_draw rnd \<noteq> 0" "base_price_draw rnd \<noteq> change_draw rnd"
    by auto
  with None d show ?thesis
    by (simp add: get_mock_stock_quote_def py_div_def Let_def)
next
  case (Some base)
  define price where "price = c_price base * (1 + price_variation rnd)"
  define change where "change = c_change base + change_variation rnd"
  from catalog_denominator [OF Some assms]
  have d: "40 \<le> price - change" unfolding price_def change_def by simp
  then have "price - change \<noteq> 0" "price \<noteq> change" by auto
  with Some d show ?thesis
    by (simp add: get_mock_stock_quote_def py_div_def Let_def price_def [symmetric]
        change_def [symmetric])
qed

theorem mock_quote_total_witness:
  "\<exists>q. get_mock_stock_quote
          \<lparr>price_variation = - 0.02, change_variation = 0.5, volume_jitter = 0,
           base_price_draw = 50, change_draw = 10, volume_draw = 1000000,
           market_cap_draw = 10000000000\<rparr> ''2024-01-01T00:00:00'' ''XYZ'' = Inr q \<and>
        q_change_percent q = 25"
proof -
  have ok: "quote_draws_ok \<lparr>price_variation = - 0.02, change_variation = 0.5, volume_jitter = 0,
           base_price_draw = 50, change_draw = 10, volume_draw = 1000000,
           market_cap_draw = 10000000000\<rparr>"
    by (simp add: quote_draws_ok_def)
  have unknown: "map_of MOCK_STOCK_DATA (upper ''XYZ'') = None"
    by (simp add: MOCK_STOCK_DATA_def upper_def upper_char_def)
  have pct: "round2 25 = 25"
    by (simp add: round2_def round_half_even_def)
  from mock_quote_total [OF ok, of "''2024-01-01T00:00:00''" "''XYZ''"]
  show ?thesis
    unfolding unknown by (simp add: pct)
qed

lemma aapl_entry:
  "map_of MOCK_STOCK_DATA (upper ''AAPL'') =
     Some \<lparr>c_name = ''Apple Inc.'', c_price = 175.50, c_change = 2.30,
       c_volume = 45000000, c_market_cap = 2800000000000\<rparr>"
  by (simp add: MOCK_STOCK_DATA_def upper_def upper_char_def)

lemma aapl_price_range:
  assumes "quote_draws_ok rnd"
  shows "171.99 \<le> round2 (175.50 * (1 + price_variation rnd)) \<and>
         round2 (175.50 * (1 + price_variation rnd)) \<le> 179.01"
proof -
  have "171.99 \<le> 175.50 * (1 + price_variation rnd)" "175.50 * (1 + price_variation rnd) \<le> 179.01"
    using assms by (simp_all add: quote_draws_ok_def)
  then have "round2 171.99 \<le> round2 (175.50 * (1 + price_variation rnd))"
    "round2 (175.50 * (1 + price_variation rnd)) \<le> round2 179.01"
    by (simp_all only: round2_mono)
  moreover have "round2 171.99 = 171.99" "round2 179.01 = 179.01"
    by (simp_all add: round2_def round_half_even_def)
  ultimately show ?thesis by simp
qed

text \<open>
  Claim C9. When no live provider gives a quote, each of two calls of the quote endpoint
  for AAPL, whatever it draws, returns a quote tagged \<^verbatim>\<open>mock_data\<close> with status
  \<^verbatim>\<open>success\<close> and a price between 167.0 and 184.0 (in fact between 171.99 and
  179.01).
\<close>

theorem stock_quote_aapl_fallback:
  assumes "try_live_stock_quote now1 today1 yahoo1 alpha1 ''AAPL'' = None"
    and "try_live_stock_quote now2 today2 yahoo2 alpha2 ''AAPL'' = None"
    and "quote_draws_ok rnd1" and "quote_draws_ok rnd2"
  shows "\<exists>q1 q2. stock_quote now1 today1 yahoo1 alpha1 rnd1 ''AAPL'' = Inr q1 \<and>
           stock_quote now2 today2 yahoo2 alpha2 rnd2 ''AAPL'' = Inr q2 \<and>
           q_data_source q1 = ''mock_data'' \<and> q_status q1 = ''success'' \<and>
           167.0 \<le> q_price q1 \<and> q_price q1 \<le> 184.0 \<and>
           q_data_source q2 = ''mock_data'' \<and> q_status q2 = ''success'' \<and>
           167.0 \<le> q_price q2 \<and> q_price q2 \<le> 184.0"
proof -
  have one: "\<exists>q. stock_quote now today yahoo alpha rnd ''AAPL'' = Inr q \<and>
           q_data_source q = ''mock_data'' \<and> q_status q = ''success'' \<and>
           167.0 \<le> q_price q \<and> q_price q \<le> 184.0"
    if live: "try_live_stock_quote now today yahoo alpha ''AAPL'' = None" and ok: "quote_draws_ok rnd"
    for now today yahoo alpha rnd
  proof -
    from mock_quote_known [OF aapl_entry ok, of now] obtain q
      where q: "get_mock_stock_quote rnd now ''AAPL'' = Inr q"
        "q_price q = round2 (175.50 * (1 + price_variation rnd))"
        "q_data_source q = ''mock_data''" "q_status q = ''success''" by auto
    have "stock_quote now today yahoo alpha rnd ''AAPL'' =
        Inr (q\<lparr>q_note := Some ''Live data unavailable - showing mock data for demonstration''\<rparr>)"
      using live q(1) by (simp add: stock_quote_def)
    moreover have "167.0 \<le> q_price q \<and> q_price q \<le> 184.0"
      using aapl_price_range [OF ok] q(2) by simp
    ultimately show ?thesis using q(3,4) by simp
  qed
  from one [OF assms(1,3)] one [OF assms(2,4)] show ?thesis by blast
qed

theorem stock_quote_aapl_fallback_witness:
  "\<exists>q1 q2.
     stock_quote ''2024-01-01T10:00:00'' ''2024-01-01'' Raised (Reply 503 [])
       \<lparr>price_variation = 0.02, change_variation = 0.5, volume_jitter = 1000000,
        base_price_draw = 50, change_draw = 10, volume_draw = 1000000,
        market_cap_draw = 10000000000\<rparr> ''AAPL'' = Inr q1 \<and>
     stock_quote ''2024-01-01T10:00:01'' ''2024-01-01'' (Reply 404 []) Raised
       \<lparr>price_variation = - 0.02, change_variation = - 0.5, volume_jitter = - 1000000,
        base_price_draw = 300, change_draw = - 10, volume_draw = 50000000,
        market_cap_draw = 500000000000\<rparr> ''AAPL'' = Inr q2 \<and>
     q_data_source q1 = ''mock_data'' \<and> q_status q1 = ''success'' \<and> q_price q1 = 179.01 \<and>
     q_data_source q2 = ''mock_data'' \<and> q_status q2 = ''success'' \<and> q_price q2 = 171.99"
proof -
  have l1: "try_live_stock_quote ''2024-01-01T10:00:00'' ''2024-01-01'' Raised (Reply 503 []) ''AAPL'' = None"
    by (simp add: try_live_stock_quote_def yahoo_finance_quote_def alpha_vantage_quote_def)
  have l2: "try_live_stock_quote ''2024-01-01T10:00:01'' ''2024-01-01'' (Reply 404 []) Raised ''AAPL'' = None"
    by (simp add: try_live_stock_quote_def yahoo_finance_quote_def alpha_vantage_quote_def)
  have o1: "quote_draws_ok \<lparr>price_variation = 0.02, change_variation = 0.5, volume_jitter = 1000000,
        base_price_draw = 50, change_draw = 10, volume_draw = 1000000,
        market_cap_draw = 10000000000\<rparr>"
    by (simp add: quote_draws_ok_def)
  have o2: "quote_draws_ok \<lparr>price_variation = - 0.02, change_variation = - 0.5, volume_jitter = - 1000000,
        base_price_draw = 300, change_draw = - 10, volume_draw = 50000000,
        market_cap_draw = 500000000000\<rparr>"
    by (simp add: quote_draws_ok_def)
  from stock_quote_aapl_fallback [OF l1 l2 o1 o2] obtain q1 q2 where
    r: "stock_quote ''2024-01-01T10:00:00'' ''2024-01-01'' Raised (Reply 503 [])
       \<lparr>price_variation = 0.02, change_variation = 0.5, volume_jitter = 1000000,
        base_price_draw = 50, change_draw = 10, volume_draw = 1000000,
        market_cap_draw = 10000000000\<rparr> ''AAPL'' = Inr q1"
     "stock_quote ''2024-01-01T10:00:01'' ''2024-01-01'' (Reply 404 []) Raised
       \<lparr>price_variation = - 0.02, change_variation = - 0.5, volume_jitter = - 1000000,
        base_price_draw = 300, change_draw = - 10, volume_draw = 50000000,
        market_cap_draw = 500000000000\<rparr> ''AAPL'' = Inr q2"
     "q_data_source q1 = ''mock_data''" "q_status q1 = ''success''"
     "q_data_source q2 = ''mock_data''" "q_status q2 = ''success''"
    by blast
  have "q_price q1 = 179.01" "q_price q2 = 171.99"
    using r(1,2)
    by (auto simp: stock_quote_def l1 l2 get_mock_stock_quote_def MOCK_STOCK_DATA_def upper_def
        upper_char_def py_div_def Let_def round2_def round_half_even_def)
  with r show ?thesis by blast
qed

section \<open>The generated history\<close>

lemma days_map_cases:
  "get_or (map_of days_map period) 30 \<in> {1, 5, 30, 90, 180, 365}"
  by (simp add: days_map_def get_or_def)

lemma days_positive: "0 < get_or (map_of days_map period) 30"
  using days_map_cases [of period] by auto

lemma mock_history_loop_Suc:
  assumes "mock_history_loop days clock rnd sp (Suc n) = Inr h"
  obtains h' p where "mock_history_loop days clock rnd sp n = Inr h'"
    and "mock_point days clock rnd sp h' n = Inr p" and "h = h' @ [p]"
  using assms by (auto split: sum.splits)

lemma mock_history_loop_length:
  "mock_history_loop days clock rnd sp n = Inr h \<Longrightarrow> length h = n"
proof (induction n arbitrary: h)
  case 0
  then show ?case by simp
next
  case (Suc n)
  from Suc.prems obtain h' p where "mock_history_loop days clock rnd sp n = Inr h'" "h = h' @ [p]"
    by (rule mock_history_loop_Suc)
  with Suc.IH show ?case by simp
qed

lemma mock_point_returns:
  assumes "i = 0 \<or> history \<noteq> []"
  shows "\<exists>p. mock_point days clock rnd sp history i = Inr p"
  using assms by (auto simp: mock_point_def py_last_def Let_def)

lemma mock_history_loop_total: "\<exists>h. mock_history_loop days clock rnd sp n = Inr h"
proof (induction n)
  case 0
  show ?case by simp
next
  case (Suc n)
  then obtain h where h: "mock_history_loop days clock rnd sp n = Inr h" by blast
  then have "length h = n" by (rule mock_history_loop_length)
  then have "n = 0 \<or> h \<noteq> []" by auto
  from mock_point_returns [OF this] obtain p where "mock_point days clock rnd sp h n = Inr p"
    by blast
  with h show ?case by simp
qed

lemma mock_point_date:
  "mock_point days clock rnd sp history i = Inr p \<Longrightarrow> pt_date p = clock i - int (days - i - 1)"
  by (auto simp: mock_point_def Let_def split: sum.splits if_splits)

lemma mock_history_loop_dates:
  "mock_history_loop days clock rnd sp n = Inr h \<Longrightarrow> i < n \<Longrightarrow>
     pt_date (h ! i) = clock i - int (days - i - 1)"
proof (induction n arbitrary: h)
  case 0
  then show ?case by simp
next
  case (Suc n)
  from Suc.prems(1) obtain h' p where h': "mock_history_loop days clock rnd sp n = Inr h'"
    and p: "mock_point days clock rnd sp h' n = Inr p" and h: "h = h' @ [p]"
    by (rule mock_history_loop_Suc)
  have len: "length h' = n" using h' by (rule mock_history_loop_length)
  show ?case
  proof (cases "i < n")
    case True
    with Suc.IH [OF h'] len h show ?thesis by (simp add: nth_append)
  next
    case False
    with Suc.prems(2) have "i = n" by simp
    moreover from len have "(h' @ [p]) ! n = p" by (metis nth_append_length)
    ultimately show ?thesis using h mock_point_date [OF p] by simp
  qed
qed

lemma mock_point_bounds:
  assumes p: "mock_point days clock rnd sp history i = Inr p"
    and ok: "day_draws_ok (rnd i)"
    and sp: "0 \<le> sp" and hist: "\<forall>q \<in> set history. 0 \<le> pt_close q"
  shows "0 \<le> pt_close p \<and> pt_low p \<le> pt_close p \<and> pt_close p \<le> pt_high p"
proof -
  define price where "price =
    (if i = 0 then sp * (1 + d_start (rnd i)) else pt_close (last history) * (1 + d_daily_change (rnd i)))"
  have nonempty: "i \<noteq> 0 \<Longrightarrow> history \<noteq> []"
    using p by (auto simp: mock_point_def py_last_def Let_def split: if_splits)
  have fields: "pt_close p = round2 price" "pt_high p = round2 (price * (1 + d_high (rnd i)))"
    "pt_low p = round2 (price * (1 - d_low (rnd i)))"
    using p by (auto simp: mock_point_def py_last_def Let_def price_def split: if_splits)
  have pos: "0 \<le> price"
  proof (cases "i = 0")
    case True
    with sp ok show ?thesis by (simp add: price_def day_draws_ok_def)
  next
    case False
    with nonempty hist have "0 \<le> pt_close (last history)" by simp
    with False ok show ?thesis by (simp add: price_def day_draws_ok_def)
  qed
  have factors: "1 - d_low (rnd i) \<le> 1" "1 \<le> 1 + d_high (rnd i)"
    using ok by (simp_all add: day_draws_ok_def)
  have "price * (1 - d_low (rnd i)) \<le> price * 1"
    using factors(1) pos by (rule mult_left_mono)
  moreover have "price * 1 \<le> price * (1 + d_high (rnd i))"
    using factors(2) pos by (rule mult_left_mono)
  ultimately have "round2 (price * (1 - d_low (rnd i))) \<le> round2 price"
    "round2 price \<le> round2 (price * (1 + d_high (rnd i)))"
    using round2_mono by fastforce+
  with fields round2_nonneg [OF pos] show ?thesis by simp
qed

lemma mock_history_loop_bounds:
  assumes ok: "\<forall>i. day_draws_ok (rnd i)" and sp: "0 \<le> sp"
  shows "mock_history_loop days clock rnd sp n = Inr h \<Longrightarrow>
     \<forall>p \<in> set h. 0 \<le> pt_close p \<and> pt_low p \<le> pt_close p \<and> pt_close p \<le> pt_high p"
proof (induction n arbitrary: h)
  case 0
  then show ?case by simp
next
  case (Suc n)
  from Suc.prems obtain h' p where h': "mock_history_loop days clock rnd sp n = Inr h'"
    and p: "mock_point days clock rnd sp h' n = Inr p" and h: "h = h' @ [p]"
    by (rule mock_history_loop_Suc)
  from Suc.IH [OF h'] have old: "\<forall>q \<in> set h'. 0 \<le> pt_close q \<and> pt_low q \<le> pt_close q \<and> pt_close q \<le> pt_high q" .
  then have "\<forall>q \<in> set h'. 0 \<le> pt_close q" by blast
  from mock_point_bounds [OF p _ sp this] ok
  have "0 \<le> pt_close p \<and> pt_low p \<le> pt_close p \<and> pt_close p \<le> pt_high p" by blast
  with old h show ?case by auto
qed

lemma mock_history_loop_first:
  "mock_history_loop days clock rnd sp (Suc n) = Inr h \<Longrightarrow>
     h \<noteq> [] \<and> pt_close (hd h) = round2 (sp * (1 + d_start (rnd 0)))"
proof (induction n arbitrary: h)
  case 0
  then show ?case by (auto simp: mock_point_def Let_def split: sum.splits)
next
  case (Suc n)
  from Suc.prems obtain h' p where h': "mock_history_loop days clock rnd sp (Suc n) = Inr h'"
    and h: "h = h' @ [p]"
    by (rule mock_history_loop_Suc)
  from Suc.IH [OF h'] h show ?case by simp
qed

lemma mock_history_response_fields:
  assumes "mock_history_response symbol period history = Inr r"
  shows "h_history r = history \<and> history \<noteq> [] \<and>
         h_start_price r = pt_close (hd history) \<and> h_end_price r = pt_close (last history) \<and>
         h_data_points r = length history \<and> h_start_price r \<noteq> 0 \<and>
         h_total_return_percent r =
           round2 ((h_end_price r - h_start_price r) / h_start_price r * 100) \<and>
         h_data_source r = ''mock_data'' \<and> h_status r = ''success''"
  using assms
  by (auto simp: mock_history_response_def py_first_def py_last_def py_div_def Let_def
      split: list.splits sum.splits if_splits)

lemma mock_history_response_returns:
  assumes "history \<noteq> []" and "pt_close (hd history) \<noteq> 0"
  shows "\<exists>r. mock_history_response symbol period history = Inr r"
  using assms
  by (cases history) (auto simp: mock_history_response_def py_first_def py_last_def py_div_def Let_def)

lemma mock_history_returns:
  assumes q: "get_mock_stock_quote qrnd now symbol = Inr q" and pos: "50 \<le> q_price q"
    and d0: "day_draws_ok (rnd 0)"
  shows "\<exists>r h. mock_history clock now qrnd rnd symbol period = Inr r \<and>
           mock_history_loop (get_or (map_of days_map period) 30) clock rnd (q_price q)
             (get_or (map_of days_map period) 30) = Inr h \<and>
           mock_history_response symbol period h = Inr r \<and>
           pt_close (hd h) = round2 (q_price q * (1 + d_start (rnd 0))) \<and>
           45 \<le> pt_close (hd h)"
proof -
  define days where "days = get_or (map_of days_map period) 30"
  from days_positive [of period] obtain n where n: "days = Suc n"
    unfolding days_def by (cases "get_or (map_of days_map period) 30") auto
  from mock_history_loop_total obtain h
    where h: "mock_history_loop days clock rnd (q_price q) days = Inr h" by blast
  from h n mock_history_loop_first [of days clock rnd "q_price q" n h]
  have first: "h \<noteq> []" "pt_close (hd h) = round2 (q_price q * (1 + d_start (rnd 0)))" by auto
  have "50 * 0.9 \<le> q_price q * (1 + d_start (rnd 0))"
    using d0 pos by (intro mult_mono) (auto simp: day_draws_ok_def)
  then have "round2 45 \<le> pt_close (hd h)"
    unfolding first(2) by (intro round2_mono) simp
  moreover have "round2 45 = 45"
    by (simp add: round2_def round_half_even_def)
  ultimately have hpos: "45 \<le> pt_close (hd h)" by simp
  with first(1) mock_history_response_returns [of h symbol period] obtain r
    where r: "mock_history_response symbol period h = Inr r" by auto
  have "mock_history clock now qrnd rnd symbol period = Inr r"
    using q h r by (simp add: mock_history_def days_def Let_def)
  with h r first hpos show ?thesis unfolding days_def by blast
qed

lemma live_history_fields:
  assumes "live_history yahoo symbol period = Some r"
  shows "h_history r \<noteq> [] \<and>
         h_start_price r = pt_close (hd (h_history r)) \<and>
         h_end_price r = pt_close (last (h_history r)) \<and>
         h_data_points r = length (h_history r) \<and> h_start_price r \<noteq> 0 \<and>
         h_total_return_percent r =
           round2 ((h_end_price r - h_start_price r) / h_start_price r * 100)"
  using assms
  by (auto simp: live_history_def Let_def caught_def py_div_def
      split: reply.splits list.splits if_splits bind_splits)

text \<open>
  Claim C5. In every response that \<^verbatim>\<open>stock_history\<close> returns, from the live series or
  from the generated one, the series is not empty, \<^verbatim>\<open>start_price\<close> is the close of
  its first point, \<^verbatim>\<open>end_price\<close> the close of its last point, \<^verbatim>\<open>data_points\<close> its
  length, and \<^verbatim>\<open>total_return_percent\<close> is
  \<^verbatim>\<open>(end_price - start_price) / start_price * 100\<close> rounded to two decimals, with a
  start price different from 0.
\<close>

theorem stock_history_aggregates:
  assumes "stock_history yahoo clock now qrnd rnd symbol period = Inr r"
  shows "h_history r \<noteq> [] \<and>
         h_start_price r = pt_close (hd (h_history r)) \<and>
         h_end_price r = pt_close (last (h_history r)) \<and>
         h_data_points r = length (h_history r) \<and> h_start_price r \<noteq> 0 \<and>
         h_total_return_percent r =
           round2 ((h_end_price r - h_start_price r) / h_start_price r * 100)"
proof (cases "live_history yahoo symbol period")
  case (Some live)
  with assms have "live = r" by (simp add: stock_history_def)
  with Some show ?thesis using live_history_fields by blast
next
  case None
  with assms have "mock_history clock now qrnd rnd symbol period = Inr r"
    by (simp add: stock_history_def split: sum.splits)
  then obtain history where "mock_history_response symbol period history = Inr r"
    by (auto simp: mock_history_def Let_def split: sum.splits)
  from mock_history_response_fields [OF this] show ?thesis by simp
qed

text \<open>
  Claim C10. On the generated path (no live series), for every symbol and all draws in
  range, the anchor quote has a price of at least 50, and of at least 136.46 (the
  smallest catalog price times 0.98, in cents) for a catalog symbol; the response is
  returned, the close of its first point is the anchor price with the first-day jitter,
  rounded, and is strictly positive, and it is the divisor of the total return, so that
  division never has a zero divisor.
\<close>

theorem stock_history_first_close_positive:
  assumes live: "live_history yahoo symbol period = None"
    and qok: "quote_draws_ok qrnd" and d0: "day_draws_ok (rnd 0)"
  shows "\<exists>q r. get_mock_stock_quote qrnd now symbol = Inr q \<and> 50 \<le> q_price q \<and>
           (upper symbol \<in> dom (map_of MOCK_STOCK_DATA) \<longrightarrow> 136.46 \<le> q_price q) \<and>
           stock_history yahoo clock now qrnd rnd symbol period = Inr r \<and>
           h_history r \<noteq> [] \<and>
           pt_close (hd (h_history r)) = round2 (q_price q * (1 + d_start (rnd 0))) \<and>
           0 < pt_close (hd (h_history r)) \<and>
           h_start_price r = pt_close (hd (h_history r)) \<and>
           h_total_return_percent r =
             round2 ((h_end_price r - h_start_price r) / h_start_price r * 100)"
proof -
  from mock_quote_anchor [OF qok, of now symbol] obtain q
    where q: "get_mock_stock_quote qrnd now symbol = Inr q" "50 \<le> q_price q"
      "upper symbol \<in> dom (map_of MOCK_STOCK_DATA) \<longrightarrow> 136.46 \<le> q_price q" by blast
  from mock_history_returns [where rnd = rnd and clock = clock and period = period, OF q(1,2) d0]
  obtain r h
    where r: "mock_history clock now qrnd rnd symbol period = Inr r"
      "mock_history_response symbol period h = Inr r"
      "pt_close (hd h) = round2 (q_price q * (1 + d_start (rnd 0)))" "45 \<le> pt_close (hd h)"
    by blast
  have run: "stock_history yahoo clock now qrnd rnd symbol period = Inr r"
    using live r(1) by (simp add: stock_history_def)
  from mock_history_response_fields [OF r(2)] r(3,4) q run show ?thesis
    by (intro exI [of _ q] exI [of _ r]) simp
qed

text \<open>
  Claim C1, as amended. In every point of a generated series, low is at most close and
  close is at most high. The open is drawn around the close independently of high and
  low, and can lie outside them (a run with the open above the high is evaluated in
  the next section).
\<close>

theorem stock_history_low_close_high:
  assumes live: "live_history yahoo symbol period = None"
    and qok: "quote_draws_ok qrnd" and dok: "\<forall>i. day_draws_ok (rnd i)"
  shows "\<exists>r. stock_history yahoo clock now qrnd rnd symbol period = Inr r \<and>
           (\<forall>p \<in> set (h_history r). pt_low p \<le> pt_close p \<and> pt_close p \<le> pt_high p)"
proof -
  from mock_quote_anchor [OF qok, of now symbol] obtain q
    where q: "get_mock_stock_quote qrnd now symbol = Inr q" "50 \<le> q_price q" by blast
  from dok have d0: "day_draws_ok (rnd 0)" by blast
  from mock_history_returns [where rnd = rnd and clock = clock and period = period, OF q(1,2) d0]
  obtain r h
    where r: "mock_history clock now qrnd rnd symbol period = Inr r"
      "mock_history_loop (get_or (map_of days_map period) 30) clock rnd (q_price q)
             (get_or (map_of days_map period) 30) = Inr h"
      "mock_history_response symbol period h = Inr r"
    by blast
  have run: "stock_history yahoo clock now qrnd rnd symbol period = Inr r"
    using live r(1) by (simp add: stock_history_def)
  from q(2) have "0 \<le> q_price q" by simp
  from mock_history_loop_bounds [OF dok this r(2)] mock_history_response_fields [OF r(3)] run
  show ?thesis by auto
qed

lemma stock_history_length:
  assumes live: "live_history yahoo symbol period = None"
    and run: "stock_history yahoo clock now qrnd rnd symbol period = Inr r"
  shows "length (h_history r) = get_or (map_of days_map period) 30 \<and>
         h_data_points r = get_or (map_of days_map period) 30"
proof -
  from live run have "mock_history clock now qrnd rnd symbol period = Inr r"
    by (simp add: stock_history_def split: sum.splits)
  then obtain sp h where h: "mock_history_loop (get_or (map_of days_map period) 30) clock rnd sp
             (get_or (map_of days_map period) 30) = Inr h"
    and r: "mock_history_response symbol period h = Inr r"
    by (auto simp: mock_history_def Let_def split: sum.splits)
  from mock_history_loop_length [OF h] mock_history_response_fields [OF r] show ?thesis by simp
qed

lemma stock_history_dates_same_day:
  assumes live: "live_history yahoo symbol period = None"
    and run: "stock_history yahoo clock now qrnd rnd symbol period = Inr r"
    and clock: "\<forall>i < length (h_history r). clock i = today"
  shows "map pt_date (h_history r) =
           map (\<lambda>i. today - int (length (h_history r)) + 1 + int i) [0 ..< length (h_history r)]"
proof -
  define days where "days = get_or (map_of days_map period) 30"
  from live run have "mock_history clock now qrnd rnd symbol period = Inr r"
    by (simp add: stock_history_def split: sum.splits)
  then obtain sp h where h: "mock_history_loop days clock rnd sp days = Inr h"
    and r: "mock_history_response symbol period h = Inr r"
    by (auto simp: mock_history_def days_def Let_def split: sum.splits)
  have hr: "h_history r = h" using mock_history_response_fields [OF r] by simp
  have len: "length h = days" using h by (rule mock_history_loop_length)
  show ?thesis
    unfolding hr
  proof (rule nth_equalityI)
    show "length (map pt_date h) = length (map (\<lambda>i. today - int (length h) + 1 + int i) [0 ..< length h])"
      by simp
  next
    fix i assume "i < length (map pt_date h)"
    then have i: "i < days" using len by simp
    with mock_history_loop_dates [OF h i] clock hr len
    show "map pt_date h ! i = map (\<lambda>i. today - int (length h) + 1 + int i) [0 ..< length h] ! i"
      by simp
  qed
qed

section \<open>Concrete runs of the history endpoint\<close>

lemmas eval_defs = stock_history_def live_history_def mock_history_def days_map_def get_or_def
  get_mock_stock_quote_def MOCK_STOCK_DATA_def upper_def upper_char_def py_div_def
  mock_point_def mock_history_response_def py_first_def py_last_def round2_def
  round_half_even_def Let_def numeral_eq_Suc

theorem stock_history_aggregates_witness:
  "\<exists>r. stock_history
          (Reply 200
            [\<lparr>r_meta = None, r_timestamp = Some [1704067200, 1704153600, 1704240000],
              r_indicators_quote = Some
                [\<lparr>col_open = Some [Some 10, Some 11, None],
                  col_high = Some [Some 12, Some 12.5, None],
                  col_low = Some [Some 9, Some 10.255, None],
                  col_close = Some [Some 10, Some 12, None],
                  col_volume = Some [Some 100, None, None]\<rparr>]\<rparr>])
          (\<lambda>i. 19723) ''2024-01-03T12:00:00''
          \<lparr>price_variation = 0, change_variation = 0, volume_jitter = 0,
           base_price_draw = 100, change_draw = 1, volume_draw = 1000000,
           market_cap_draw = 10000000000\<rparr>
          (\<lambda>i. \<lparr>d_daily_change = 0, d_start = 0, d_high = 0, d_low = 0, d_open = 0,
                 d_volume = 1000000\<rparr>)
          ''aapl'' ''5d'' = Inr r \<and>
        h_data_source r = ''yahoo_finance'' \<and> map pt_date (h_history r) = [19723, 19724] \<and>
        h_start_price r = 10 \<and> h_end_price r = 12 \<and> h_data_points r = 2 \<and>
        h_total_return_percent r = 20"
proof -
  let ?r = "\<lparr>h_symbol = ''AAPL'', h_period = ''5d'',
      h_history =
        [\<lparr>pt_date = 19723, pt_open = 10, pt_high = 12, pt_low = 9, pt_close = 10,
          pt_volume = 100\<rparr>,
         \<lparr>pt_date = 19724, pt_open = 11, pt_high = 12.5, pt_low = 10.26, pt_close = 12,
          pt_volume = 0\<rparr>],
      h_total_return_percent = 20, h_data_points = 2, h_start_price = 10, h_end_price = 12,
      h_data_source = ''yahoo_finance'', h_note = None, h_status = ''success''\<rparr>"
  have run: "stock_history
          (Reply 200
            [\<lparr>r_meta = None, r_timestamp = Some [1704067200, 1704153600, 1704240000],
              r_indicators_quote = Some
                [\<lparr>col_open = Some [Some 10, Some 11, None],
                  col_high = Some [Some 12, Some 12.5, None],
                  col_low = Some [Some 9, Some 10.255, None],
                  col_close = Some [Some 10, Some 12, None],
                  col_volume = Some [Some 100, None, None]\<rparr>]\<rparr>])
          (\<lambda>i. 19723) ''2024-01-03T12:00:00''
          \<lparr>price_variation = 0, change_variation = 0, volume_jitter = 0,
           base_price_draw = 100, change_draw = 1, volume_draw = 1000000,
           market_cap_draw = 10000000000\<rparr>
          (\<lambda>i. \<lparr>d_daily_change = 0, d_start = 0, d_high = 0, d_low = 0, d_open = 0,
                 d_volume = 1000000\<rparr>)
          ''aapl'' ''5d'' = Inr ?r"
    by (simp add: eval_defs live_point_def caught_def col_get_def day_of_timestamp_def)
  from stock_history_aggregates [OF run] run show ?thesis by simp
qed

theorem stock_history_first_close_positive_witness:
  "\<exists>q r. upper ''googl'' \<in> dom (map_of MOCK_STOCK_DATA) \<and>
          get_mock_stock_quote
            \<lparr>price_variation = - 0.01, change_variation = 0.5, volume_jitter = 0,
             base_price_draw = 50, change_draw = 10, volume_draw = 1000000,
             market_cap_draw = 10000000000\<rparr> ''2024-01-03T12:00:00'' ''googl'' = Inr q \<and>
          q_price q = 137.86 \<and>
          stock_history (Reply 500 []) (\<lambda>i. 19725) ''2024-01-03T12:00:00''
            \<lparr>price_variation = - 0.01, change_variation = 0.5, volume_jitter = 0,
             base_price_draw = 50, change_draw = 10, volume_draw = 1000000,
             market_cap_draw = 10000000000\<rparr>
            (\<lambda>i. \<lparr>d_daily_change = - 0.03, d_start = - 0.1, d_high = 0, d_low = 0.02,
                   d_open = - 0.01, d_volume = 1000000\<rparr>)
            ''googl'' ''1y'' = Inr r \<and>
          pt_close (hd (h_history r)) = 124.07 \<and> h_start_price r = 124.07"
proof -
  have live: "live_history (Reply 500 []) ''googl'' ''1y'' = None"
    by (simp add: live_history_def)
  have qok: "quote_draws_ok \<lparr>price_variation = - 0.01, change_variation = 0.5, volume_jitter = 0,
             base_price_draw = 50, change_draw = 10, volume_draw = 1000000,
             market_cap_draw = 10000000000\<rparr>"
    by (simp add: quote_draws_ok_def)
  have d0: "day_draws_ok ((\<lambda>i::nat. \<lparr>d_daily_change = - 0.03, d_start = - 0.1, d_high = 0, d_low = 0.02,
                   d_open = - 0.01, d_volume = 1000000\<rparr>) 0)"
    by (simp add: day_draws_ok_def)
  have cat: "upper ''googl'' \<in> dom (map_of MOCK_STOCK_DATA)"
    by (simp add: MOCK_STOCK_DATA_def upper_def upper_char_def)
  from stock_history_first_close_positive
      [where clock = "\<lambda>i. 19725" and now = "''2024-01-03T12:00:00''", OF live qok d0]
  obtain q r where qr: "get_mock_stock_quote
            \<lparr>price_variation = - 0.01, change_variation = 0.5, volume_jitter = 0,
             base_price_draw = 50, change_draw = 10, volume_draw = 1000000,
             market_cap_draw = 10000000000\<rparr> ''2024-01-03T12:00:00'' ''googl'' = Inr q"
    "stock_history (Reply 500 []) (\<lambda>i. 19725) ''2024-01-03T12:00:00''
            \<lparr>price_variation = - 0.01, change_variation = 0.5, volume_jitter = 0,
             base_price_draw = 50, change_draw = 10, volume_draw = 1000000,
             market_cap_draw = 10000000000\<rparr>
            (\<lambda>i. \<lparr>d_daily_change = - 0.03, d_start = - 0.1, d_high = 0, d_low = 0.02,
                   d_open = - 0.01, d_volume = 1000000\<rparr>)
            ''googl'' ''1y'' = Inr r"
    "pt_close (hd (h_history r)) = round2 (q_price q * (1 + d_start
       \<lparr>d_daily_change = - 0.03, d_start = - 0.1, d_high = 0, d_low = 0.02,
                   d_open = - 0.01, d_volume = 1000000\<rparr>))"
    "h_start_price r = pt_close (hd (h_history r))"
    by blast
  from qr(1) have price: "q_price q = 137.86"
    by (auto simp: get_mock_stock_quote_def MOCK_STOCK_DATA_def upper_def upper_char_def
        py_div_def Let_def round2_def round_half_even_def)
  have first: "round2 (137.86 * (1 + d_start
       \<lparr>d_daily_change = - 0.03, d_start = - 0.1, d_high = 0, d_low = 0.02,
                   d_open = - 0.01, d_volume = 1000000\<rparr>)) = 124.07"
    by (simp add: round2_def round_half_even_def)
  have close: "pt_close (hd (h_history r)) = 124.07"
    using qr(3) unfolding price first .
  have start: "h_start_price r = 124.07"
    using qr(4) unfolding close .
  from cat qr(1,2) price close start show ?thesis by blast
qed

theorem stock_history_low_close_high_witness:
  "\<exists>r. stock_history Raised (\<lambda>i. 19725) ''2024-01-03T12:00:00''
          \<lparr>price_variation = 0.01, change_variation = 0.1, volume_jitter = 5,
           base_price_draw = 60, change_draw = 1, volume_draw = 1000000,
           market_cap_draw = 10000000000\<rparr>
          (\<lambda>i. \<lparr>d_daily_change = 0.03, d_start = 0.1, d_high = 0.02, d_low = 0.02,
                 d_open = 0.01, d_volume = 20000000\<rparr>)
          ''nvda'' ''3mo'' = Inr r \<and>
        (\<forall>p \<in> set (h_history r). pt_low p \<le> pt_close p \<and> pt_close p \<le> pt_high p)"
proof -
  have live: "live_history Raised ''nvda'' ''3mo'' = None"
    by (simp add: live_history_def)
  have qok: "quote_draws_ok \<lparr>price_variation = 0.01, change_variation = 0.1, volume_jitter = 5,
           base_price_draw = 60, change_draw = 1, volume_draw = 1000000,
           market_cap_draw = 10000000000\<rparr>"
    by (simp add: quote_draws_ok_def)
  have dok: "\<forall>i. day_draws_ok ((\<lambda>i::nat. \<lparr>d_daily_change = 0.03, d_start = 0.1, d_high = 0.02,
      d_low = 0.02, d_open = 0.01, d_volume = 20000000\<rparr>) i)"
    by (simp add: day_draws_ok_def)
  show ?thesis
    by (rule stock_history_low_close_high [OF live qok dok])
qed

text \<open>
  A one-day series for an unknown symbol with anchor price 100: the open is drawn 1%
  above the close while the high is drawn equal to it, so the point has open 101 above
  high 100.
\<close>

theorem stock_history_open_above_high:
  "stock_history Raised (\<lambda>i. 19723) ''2024-01-01T12:00:00''
     \<lparr>price_variation = 0, change_variation = 0, volume_jitter = 0,
      base_price_draw = 100, change_draw = 1, volume_draw = 1000000,
      market_cap_draw = 10000000000\<rparr>
     (\<lambda>i. \<lparr>d_daily_change = 0, d_start = 0, d_high = 0, d_low = 0, d_open = 0.01,
            d_volume = 1000000\<rparr>)
     ''XYZ'' ''1d'' =
   Inr \<lparr>h_symbol = ''XYZ'', h_period = ''1d'',
        h_history = [\<lparr>pt_date = 19723, pt_open = 101, pt_high = 100, pt_low = 100,
                      pt_close = 100, pt_volume = 1000000\<rparr>],
        h_total_return_percent = 0, h_data_points = 1, h_start_price = 100,
        h_end_price = 100, h_data_source = ''mock_data'',
        h_note = Some ''Live data unavailable - showing mock data for demonstration'',
        h_status = ''success''\<rparr>"
  by (simp add: eval_defs)

text \<open>
  Claim C4. The generated series has as many points as \<^verbatim>\<open>days_map\<close> gives for the
  period, 30 for a period it does not list, and its dates are meant to be consecutive
  calendar days ending today. The loop reads \<^verbatim>\<open>datetime.now()\<close> in every iteration
  and subtracts the remaining number of days from that reading. In this run of a
  \<^verbatim>\<open>5d\<close> request the first iteration reads day 19722 and the later ones day 19723
  (midnight passes in between): the dates are 19718, 19720, 19721, 19722, 19723, so
  day 19719 is missing.
\<close>

theorem stock_history_dates_across_midnight:
  "stock_history Raised (\<lambda>i. if i = 0 then 19722 else 19723) ''2024-01-01T00:00:00''
     \<lparr>price_variation = 0, change_variation = 0, volume_jitter = 0,
      base_price_draw = 100, change_draw = 1, volume_draw = 1000000,
      market_cap_draw = 10000000000\<rparr>
     (\<lambda>i. \<lparr>d_daily_change = 0, d_start = 0, d_high = 0, d_low = 0, d_open = 0,
            d_volume = 1000000\<rparr>)
     ''XYZ'' ''5d'' =
   Inr \<lparr>h_symbol = ''XYZ'', h_period = ''5d'',
        h_history =
          [\<lparr>pt_date = 19718, pt_open = 100, pt_high = 100, pt_low = 100, pt_close = 100,
            pt_volume = 1000000\<rparr>,
           \<lparr>pt_date = 19720, pt_open = 100, pt_high = 100, pt_low = 100, pt_close = 100,
            pt_volume = 1000000\<rparr>,
           \<lparr>pt_date = 19721, pt_open = 100, pt_high = 100, pt_low = 100, pt_close = 100,
            pt_volume = 1000000\<rparr>,
           \<lparr>pt_date = 19722, pt_open = 100, pt_high = 100, pt_low = 100, pt_close = 100,
            pt_volume = 1000000\<rparr>,
           \<lparr>pt_date = 19723, pt_open = 100, pt_high = 100, pt_low = 100, pt_close = 100,
            pt_volume = 1000000\<rparr>],
        h_total_return_percent = 0, h_data_points = 5, h_start_price = 100,
        h_end_price = 100, h_data_source = ''mock_data'',
        h_note = Some ''Live data unavailable - showing mock data for demonstration'',
        h_status = ''success''\<rparr>"
  by (simp add: eval_defs)

section \<open>Search results\<close>

lemma live_search_loop_length:
  "length results \<le> 10 \<Longrightarrow> length (live_search_loop quotes results) \<le> 10"
  by (induction quotes results rule: live_search_loop.induct) auto

lemma mock_search_loop_filter:
  "mock_search_loop query_lower entries mock_results =
     mock_results @
     map (\<lambda>(symbol, data). \<lparr>sr_symbol = symbol, sr_name = c_name data, sr_exchange = ''NASDAQ'',
            sr_type = ''EQUITY'', sr_sector = ''Technology''\<rparr>)
       (filter (\<lambda>(symbol, data). str_contains (lower (c_name data)) query_lower \<or>
                  str_contains (lower symbol) query_lower) entries)"
  by (induction query_lower entries mock_results rule: mock_search_loop.induct) auto

lemma live_search_fields:
  assumes "live_search yahoo query = Some r"
  shows "s_results r \<noteq> [] \<and> length (s_results r) \<le> 10 \<and> s_count r = length (s_results r) \<and>
         s_status r = ''success''"
  using assms live_search_loop_length [of "[]"]
  by (auto simp: live_search_def Let_def split: reply.splits if_splits)

text \<open>
  Claim C7. For every reply of the live provider and every query, \<^verbatim>\<open>stock_search\<close>
  returns a response (never an error) with at most 10 results, a count equal to the
  number of results and status \<^verbatim>\<open>success\<close>; when the live search gives nothing and
  no catalog symbol or name contains the query, the results are empty and the count is 0.
\<close>

theorem stock_search_capped:
  "\<exists>r. stock_search yahoo query = Inr r \<and>
        length (s_results r) \<le> 10 \<and> s_count r = length (s_results r) \<and>
        s_status r = ''success'' \<and>
        (live_search yahoo query = None \<and>
         (\<forall>(symbol, data) \<in> set MOCK_STOCK_DATA.
            \<not> str_contains (lower (c_name data)) (lower query) \<and>
            \<not> str_contains (lower symbol) (lower query))
         \<longrightarrow> s_results r = [] \<and> s_count r = 0)"
proof (cases "live_search yahoo query")
  case (Some live)
  with live_search_fields [OF Some] show ?thesis
    by (simp add: stock_search_def)
next
  case None
  define match :: "string \<times> stock_info \<Rightarrow> bool" where "match = (\<lambda>(symbol, data). str_contains (lower (c_name data)) (lower query) \<or>
                  str_contains (lower symbol) (lower query))"
  have empty: "filter match MOCK_STOCK_DATA = []"
    if "\<forall>(symbol, data) \<in> set MOCK_STOCK_DATA.
            \<not> str_contains (lower (c_name data)) (lower query) \<and>
            \<not> str_contains (lower symbol) (lower query)"
    using that unfolding match_def filter_empty_conv by blast
  let ?r = "\<lparr>s_query = query,
      s_results = take 10 (mock_search_loop (lower query) MOCK_STOCK_DATA []),
      s_count = length (take 10 (mock_search_loop (lower query) MOCK_STOCK_DATA [])),
      s_data_source = ''mock_data'',
      s_note = Some ''Live data unavailable - showing mock results for demonstration'',
      s_status = ''success''\<rparr>"
  have run: "stock_search yahoo query = Inr ?r"
    using None by (simp add: stock_search_def Let_def)
  have "s_results ?r = [] \<and> s_count ?r = 0"
    if "\<forall>(symbol, data) \<in> set MOCK_STOCK_DATA.
            \<not> str_contains (lower (c_name data)) (lower query) \<and>
            \<not> str_contains (lower symbol) (lower query)"
    using empty [OF that] by (simp add: mock_search_loop_filter match_def)
  then show ?thesis
    using run by (intro exI [of _ ?r]) simp
qed

theorem stock_search_capped_witness:
  "\<exists>r. stock_search Raised ''zzzzNoMatch'' = Inr r \<and> s_results r = [] \<and> s_count r = 0 \<and>
        s_status r = ''success''"
proof -
  have live: "live_search Raised ''zzzzNoMatch'' = None"
    by (simp add: live_search_def)
  have nomatch: "\<forall>(symbol, data) \<in> set MOCK_STOCK_DATA.
            \<not> str_contains (lower (c_name data)) (lower ''zzzzNoMatch'') \<and>
            \<not> str_contains (lower symbol) (lower ''zzzzNoMatch'')"
    by code_simp
  from stock_search_capped [of Raised "''zzzzNoMatch''"] live nomatch
  show ?thesis by blast
qed

lemma apple_matches:
  "take 10 (mock_search_loop (lower ''apple'') MOCK_STOCK_DATA []) =
     [\<lparr>sr_symbol = ''AAPL'', sr_name = ''Apple Inc.'', sr_exchange = ''NASDAQ'',
       sr_type = ''EQUITY'', sr_sector = ''Technology''\<rparr>]"
  by code_simp

text \<open>
  Claim C8. When the live search gives no response (provider unreachable, or any other
  way of yielding nothing), the query \<^verbatim>\<open>apple\<close> returns exactly one result from the
  catalog: symbol AAPL, name Apple Inc.
\<close>

theorem stock_search_apple:
  assumes "live_search yahoo ''apple'' = None"
  shows "stock_search yahoo ''apple'' =
     Inr \<lparr>s_query = ''apple'',
          s_results = [\<lparr>sr_symbol = ''AAPL'', sr_name = ''Apple Inc.'', sr_exchange = ''NASDAQ'',
                        sr_type = ''EQUITY'', sr_sector = ''Technology''\<rparr>],
          s_count = 1, s_data_source = ''mock_data'',
          s_note = Some ''Live data unavailable - showing mock results for demonstration'',
          s_status = ''success''\<rparr>"
  using assms by (simp add: stock_search_def Let_def apple_matches del: length_take)

theorem stock_search_apple_witness:
  "live_search Raised ''apple'' = None \<and>
   stock_search Raised ''apple'' =
     Inr \<lparr>s_query = ''apple'',
          s_results = [\<lparr>sr_symbol = ''AAPL'', sr_name = ''Apple Inc.'', sr_exchange = ''NASDAQ'',
                        sr_type = ''EQUITY'', sr_sector = ''Technology''\<rparr>],
          s_count = 1, s_data_source = ''mock_data'',
          s_note = Some ''Live data unavailable - showing mock results for demonstration'',
          s_status = ''success''\<rparr>"
proof -
  have live: "live_search Raised ''apple'' = None"
    by (simp add: live_search_def)
  from live stock_search_apple [OF live] show ?thesis by (rule conjI)
qed

section \<open>Which live quotes are accepted\<close>

lemma yahoo_finance_quote_positive:
  assumes "yahoo_finance_quote now symbol (Reply status_code (result # rest)) = Some q"
    and "r_meta result = Some m"
  shows "status_code = 200 \<and> 0 < get_or (regularMarketPrice m) 0 \<and>
         q_price q = round2 (get_or (regularMarketPrice m) 0)"
  using assms
  by (auto simp: yahoo_finance_quote_def Let_def split: if_splits)

text \<open>
  Claim C6. The Yahoo Finance branch returns a quote only for a price above 0 (lemma
  above). The Alpha Vantage branch only tests that the price text is present and not
  empty: with Yahoo Finance failing, a payload whose price is \<^verbatim>\<open>0.0000\<close> and one whose
  price is \<^verbatim>\<open>-5.00\<close> are both returned as successful live quotes.
\<close>

theorem alpha_vantage_accepts_nonpositive_price:
  "try_live_stock_quote ''2024-01-03T12:00:00'' ''2024-01-03'' Raised
     (Reply 200 [(''01. symbol'', ''XYZ''), (''05. price'', ''0.0000''),
                 (''09. change'', ''0.0000''), (''10. change percent'', ''0.0000%'')])
     ''xyz'' =
   Some \<lparr>q_symbol = ''XYZ'', q_name = ''XYZ Inc.'', q_price = 0, q_change = 0,
         q_change_percent = 0, q_previous_close = 0, q_open = 0, q_high = 0, q_low = 0,
         q_volume = 0, q_market_cap = 0, q_currency = ''USD'', q_exchange = ''NASDAQ/NYSE'',
         q_last_updated = ''2024-01-03'', q_data_source = ''alpha_vantage'',
         q_status = ''success'', q_note = None\<rparr> \<and>
   try_live_stock_quote ''2024-01-03T12:00:00'' ''2024-01-03'' (Reply 404 [])
     (Reply 200 [(''01. symbol'', ''IBM''), (''02. open'', ''-5.10''), (''03. high'', ''-4.90''),
                 (''04. low'', ''-5.25''), (''05. price'', ''-5.00''), (''06. volume'', ''1200''),
                 (''07. latest trading day'', ''2024-01-02''),
                 (''08. previous close'', ''-4.00''), (''09. change'', ''-1.00''),
                 (''10. change percent'', ''25.0000%'')])
     ''ibm'' =
   Some \<lparr>q_symbol = ''IBM'', q_name = ''IBM Inc.'', q_price = - 5, q_change = - 1,
         q_change_percent = 25, q_previous_close = - 4, q_open = - 5.1, q_high = - 4.9,
         q_low = - 5.25, q_volume = 1200, q_market_cap = 0, q_currency = ''USD'',
         q_exchange = ''NASDAQ/NYSE'', q_last_updated = ''2024-01-02'',
         q_data_source = ''alpha_vantage'', q_status = ''success'', q_note = None\<rparr>"
  by code_simp

end
